theory Spec2Isabelle
  imports Main
begin

section \<open>FileUpload.tsx: the File Collector\<close>

text \<open>
  The component receives the current list \<open>uploadedFiles\<close> as a prop and reports every
  change through the callback \<open>onFilesChange\<close>. A file is an opaque value of type \<open>'f\<close>;
  the component never inspects it. Each handler is modelled by the argument it passes to
  \<open>onFilesChange\<close>.

  \<open>filter_indexed p i xs\<close> is \<open>Array.prototype.filter\<close> with a callback that reads the
  element and its index; \<open>i\<close> is the index of the head of \<open>xs\<close>.
\<close>

fun filter_indexed :: "('a \<Rightarrow> nat \<Rightarrow> bool) \<Rightarrow> nat \<Rightarrow> 'a list \<Rightarrow> 'a list" where
  "filter_indexed p i [] = []"
| "filter_indexed p i (x # xs) =
     (if p x i then x # filter_indexed p (Suc i) xs else filter_indexed p (Suc i) xs)"

text \<open>\<open>handleDrop\<close>: \<open>onFilesChange([...uploadedFiles, ...files])\<close>.\<close>

definition handleDrop :: "'f list \<Rightarrow> 'f list \<Rightarrow> 'f list" where
  "handleDrop uploadedFiles files = uploadedFiles @ files"

text \<open>
  \<open>handleFileSelect\<close>: the callback is called only when \<open>e.target.files\<close> is not null;
  \<open>None\<close> as a result means that \<open>onFilesChange\<close> is not called.
\<close>

definition handleFileSelect :: "'f list \<Rightarrow> 'f list option \<Rightarrow> 'f list option" where
  "handleFileSelect uploadedFiles target_files =
     (case target_files of
        None \<Rightarrow> None
      | Some files \<Rightarrow> Some (uploadedFiles @ files))"

text \<open>
  \<open>handleRemoveFile\<close>: \<open>uploadedFiles.filter((_, i) => i !== index)\<close>. The index is an
  integer; the buttons of the component only pass positions of the list, but the
  function is defined for every integer.
\<close>

definition handleRemoveFile :: "'f list \<Rightarrow> int \<Rightarrow> 'f list" where
  "handleRemoveFile uploadedFiles index =
     filter_indexed (\<lambda>_ i. int i \<noteq> index) 0 uploadedFiles"

text \<open>
  The user's actions on the collector, and the list the parent keeps
  (\<open>onFilesChange = setUploadedFiles\<close>, starting from \<open>useState<File[]>([])\<close>).
\<close>

datatype 'f collector_event =
    Drop "'f list"
  | Select "'f list option"
  | RemoveClick int

fun collector_step :: "'f list \<Rightarrow> 'f collector_event \<Rightarrow> 'f list" where
  "collector_step uploadedFiles (Drop files) = handleDrop uploadedFiles files"
| "collector_step uploadedFiles (Select target_files) =
     (case handleFileSelect uploadedFiles target_files of
        None \<Rightarrow> uploadedFiles
      | Some newFiles \<Rightarrow> newFiles)"
| "collector_step uploadedFiles (RemoveClick index) = handleRemoveFile uploadedFiles index"

definition collector_run :: "'f collector_event list \<Rightarrow> 'f list" where
  "collector_run events = foldl collector_step [] events"

subsection \<open>The collector as the specification words it\<close>

text \<open>
  The specification describes the result as the insertion order with the removed
  entries left out. \<open>insertion_order\<close> is every file that was ever added, in the order of
  adding. \<open>spec_step\<close> keeps, next to the number of files added so far, the positions of
  \<open>insertion_order\<close> that are still present; removing index \<open>i\<close> deletes the \<open>i\<close>-th of
  them. \<open>expected\<close> reads the files at the surviving positions.
\<close>

fun added :: "'f collector_event \<Rightarrow> 'f list" where
  "added (Drop files) = files"
| "added (Select None) = []"
| "added (Select (Some files)) = files"
| "added (RemoveClick index) = []"

definition insertion_order :: "'f collector_event list \<Rightarrow> 'f list" where
  "insertion_order events = concat (map added events)"

fun spec_step :: "nat \<times> nat list \<Rightarrow> 'f collector_event \<Rightarrow> nat \<times> nat list" where
  "spec_step (n, alive) (RemoveClick index) =
     (n, if 0 \<le> index \<and> index < int (length alive)
         then take (nat index) alive @ drop (Suc (nat index)) alive
         else alive)"
| "spec_step (n, alive) ev =
     (n + length (added ev), alive @ [n ..< n + length (added ev)])"

definition survivors :: "'f collector_event list \<Rightarrow> nat list" where
  "survivors events = snd (foldl spec_step (0, []) events)"

definition expected :: "'f collector_event list \<Rightarrow> 'f list" where
  "expected events = map (\<lambda>k. insertion_order events ! k) (survivors events)"

section \<open>RecommendationInput.tsx: the Query Input\<close>

text \<open>
  The text of the textarea is a JavaScript string: a sequence of UTF-16 code units,
  each a natural number. \<open>isWhiteSpace\<close> is the set of code units that
  \<open>String.prototype.trim\<close> strips: the WhiteSpace and LineTerminator productions of
  ECMAScript (TAB, LF, VT, FF, CR, SPACE, NO-BREAK SPACE, U+1680, U+2000 to U+200A,
  U+2028, U+2029, U+202F, U+205F, U+3000 and U+FEFF).
\<close>

type_synonym utf16 = "nat list"

definition isWhiteSpace :: "nat \<Rightarrow> bool" where
  "isWhiteSpace c =
     (c \<in> {0x09, 0x0A, 0x0B, 0x0C, 0x0D, 0x20, 0xA0, 0x1680, 0x2028, 0x2029,
            0x202F, 0x205F, 0x3000, 0xFEFF}
      \<or> (0x2000 \<le> c \<and> c \<le> 0x200A))"

definition trim :: "utf16 \<Rightarrow> utf16" where
  "trim s = rev (dropWhile isWhiteSpace (rev (dropWhile isWhiteSpace s)))"

text \<open>
  \<open>handleSubmit\<close>: \<open>if (query.trim()) { onSubmit(query); }\<close>. A string is truthy when it
  is not empty. The result is the argument of the call of \<open>onSubmit\<close>, or \<open>None\<close> when
  \<open>onSubmit\<close> is not called.
\<close>

definition handleSubmit :: "utf16 \<Rightarrow> utf16 option" where
  "handleSubmit query = (if trim query \<noteq> [] then Some query else None)"

section \<open>JavaScript values\<close>

text \<open>
  The values the code reads out of a response body: the results of \<open>JSON.parse\<close>, and
  \<open>undefined\<close> for a property that is absent. An object is the list of its own
  properties, read with \<open>map_of\<close>. A number is given by the two things this code can
  observe of it: whether it is truthy (it is neither \<open>0\<close> nor \<open>NaN\<close>) and the string
  that ToString gives for it; so every number of JavaScript, fractional or large, is a
  value here. The strings of a response and the messages of exceptions are lists of
  characters: the code tests them for emptiness and passes them on, and never looks at
  a character.
\<close>

datatype js =
    JUndefined
  | JNull
  | JBool bool
  | JNum bool string
  | JStr string
  | JArr "js list"
  | JObj "(string \<times> js) list"

text \<open>ToBoolean, as \<open>||\<close>, \<open>!\<close> and \<open>if\<close> apply it.\<close>

fun truthy :: "js \<Rightarrow> bool" where
  "truthy JUndefined = False"
| "truthy JNull = False"
| "truthy (JBool b) = b"
| "truthy (JNum nonzero digits) = nonzero"
| "truthy (JStr s) = (s \<noteq> [])"
| "truthy (JArr xs) = True"
| "truthy (JObj ps) = True"

text \<open>
  A thrown value, as the \<open>catch\<close> clause tells them apart: an instance of \<open>Error\<close>
  (TypeError and SyntaxError are) with its message, or any other value.
\<close>

datatype exn = ErrorObject string | OtherValue

text \<open>
  ToString, which \<open>new Error(message)\<close> applies to its argument; \<open>Inl\<close> when it throws.
  An array is joined with commas (\<open>Array.prototype.join\<close>: \<open>null\<close> and \<open>undefined\<close>
  elements give the empty string, the others are converted in their order, and the
  first exception ends the conversion). An object parsed from JSON gives
  \<open>[object Object]\<close>, unless it has an own property \<open>toString\<close>: that property hides
  \<open>Object.prototype.toString\<close> and is no function, \<open>valueOf\<close> gives no primitive either,
  and the conversion throws a TypeError (the message is the engine's, here V8's).
\<close>

fun join :: "string \<Rightarrow> string list \<Rightarrow> string" where
  "join sep [] = []"
| "join sep [x] = x"
| "join sep (x # y # ys) = x @ sep @ join sep (y # ys)"

fun until_throw :: "(exn + 'a) list \<Rightarrow> exn + 'a list" where
  "until_throw [] = Inr []"
| "until_throw (r # rs) =
     (case r of
        Inl e \<Rightarrow> Inl e
      | Inr x \<Rightarrow> (case until_throw rs of Inl e \<Rightarrow> Inl e | Inr xs \<Rightarrow> Inr (x # xs)))"

fun to_string :: "js \<Rightarrow> exn + string" where
  "to_string JUndefined = Inr ''undefined''"
| "to_string JNull = Inr ''null''"
| "to_string (JBool b) = Inr (if b then ''true'' else ''false'')"
| "to_string (JNum nonzero digits) = Inr digits"
| "to_string (JStr s) = Inr s"
| "to_string (JArr xs) =
     (case until_throw
             (map (\<lambda>x. if x = JUndefined \<or> x = JNull then Inr [] else to_string x) xs) of
        Inl e \<Rightarrow> Inl e
      | Inr parts \<Rightarrow> Inr (join '','' parts))"
| "to_string (JObj ps) =
     (case map_of ps ''toString'' of
        None \<Rightarrow> Inr ''[object Object]''
      | Some _ \<Rightarrow> Inl (ErrorObject ''Cannot convert object to primitive value''))"

text \<open>
  \<open>throw new Error(message)\<close>, by the exception that leaves the statement: the new
  Error, whose message is the converted argument (the empty string for \<open>undefined\<close>),
  or the exception of the conversion.
\<close>

definition new_Error :: "js \<Rightarrow> exn" where
  "new_Error message =
     (if message = JUndefined then ErrorObject []
      else case to_string message of
             Inl e \<Rightarrow> e
           | Inr converted \<Rightarrow> ErrorObject converted)"

text \<open>
  Reading the property \<open>name\<close> of a value, for a name that no prototype defines (the
  code reads \<open>detail\<close> and \<open>recommendations\<close>). Reading a property of \<open>null\<close> or
  \<open>undefined\<close> throws a TypeError; its message is the engine's, here V8's.
\<close>

definition get_prop :: "js \<Rightarrow> string \<Rightarrow> exn + js" where
  "get_prop v name =
     (case v of
        JUndefined \<Rightarrow>
          Inl (ErrorObject (''Cannot read properties of undefined (reading ''
                            @ [CHR 0x27] @ name @ [CHR 0x27] @ '')''))
      | JNull \<Rightarrow>
          Inl (ErrorObject (''Cannot read properties of null (reading ''
                            @ [CHR 0x27] @ name @ [CHR 0x27] @ '')''))
      | JObj ps \<Rightarrow> (case map_of ps name of None \<Rightarrow> Inr JUndefined | Some x \<Rightarrow> Inr x)
      | _ \<Rightarrow> Inr JUndefined)"

text \<open>
  Whether a value has the own property \<open>name\<close>, for the same names: only an object
  has one.
\<close>

definition has_own :: "js \<Rightarrow> string \<Rightarrow> bool" where
  "has_own v name = (case v of JObj ps \<Rightarrow> map_of ps name \<noteq> None | _ \<Rightarrow> False)"

section \<open>RecommendationResults.tsx: the Recommendation Request Orchestrator\<close>

subsection \<open>The request\<close>

text \<open>
  \<open>FormData\<close> is the list of its entries in the order of the \<open>append\<close> calls. A value is
  a text (the query, of any type \<open>'q\<close>: the component passes it on unread) or a file.
\<close>

datatype ('q, 'f) form_value = Text 'q | FilePart 'f

type_synonym ('q, 'f) form_data = "(string \<times> ('q, 'f) form_value) list"

definition formData_append ::
  "string \<Rightarrow> ('q, 'f) form_value \<Rightarrow> ('q, 'f) form_data \<Rightarrow> ('q, 'f) form_data" where
  "formData_append name v formData = formData @ [(name, v)]"

definition formData_getAll :: "string \<Rightarrow> ('q, 'f) form_data \<Rightarrow> ('q, 'f) form_value list" where
  "formData_getAll name formData = map snd (filter (\<lambda>entry. fst entry = name) formData)"

record ('q, 'f) request =
  url :: string
  http_method :: string
  body :: "('q, 'f) form_data"

text \<open>
  \<open>const API_URL = import.meta.env.VITE_API_URL || ''\<close>: the environment variable is
  a parameter of the model, \<open>None\<close> when it is not set.
\<close>

definition API_URL :: "string option \<Rightarrow> string" where
  "API_URL vite_api_url =
     (case vite_api_url of
        None \<Rightarrow> []
      | Some u \<Rightarrow> (if u \<noteq> [] then u else []))"

definition endpoint :: "string option \<Rightarrow> string" where
  "endpoint vite_api_url =
     (if API_URL vite_api_url \<noteq> [] then API_URL vite_api_url else [])
     @ ''/api/recommendations''"

definition build_formData :: "'q \<Rightarrow> 'f list \<Rightarrow> ('q, 'f) form_data" where
  "build_formData query files =
     foldl (\<lambda>formData file. formData_append ''files'' (FilePart file) formData)
       (formData_append ''query'' (Text query) []) files"

subsection \<open>The state of the component and what it displays\<close>

record results_state =
  recommendations :: js
  loading :: bool
  error :: "string option"

definition initial_state :: results_state where
  "initial_state = \<lparr>recommendations = JNull, loading = True, error = None\<rparr>"

text \<open>
  What the component returns: the spinner, the error box, nothing (\<open>return null\<close>), or
  the markdown handed to \<open>ReactMarkdown\<close>. The tests are the source's, in its order:
  \<open>if (loading)\<close>, \<open>if (error)\<close>, \<open>if (!recommendations)\<close>.
\<close>

datatype view = LoadingView | ErrorView string | Blank | SuccessView js

definition render_recommendations :: "results_state \<Rightarrow> view" where
  "render_recommendations s =
     (if \<not> truthy (recommendations s) then Blank else SuccessView (recommendations s))"

definition render :: "results_state \<Rightarrow> view" where
  "render s =
     (if loading s then LoadingView
      else case error s of
             None \<Rightarrow> render_recommendations s
           | Some message \<Rightarrow>
               (if message \<noteq> [] then ErrorView message else render_recommendations s))"

subsection \<open>fetchRecommendations\<close>

text \<open>
  The function is split at its \<open>await fetch\<close>. \<open>fetchRecommendations_start\<close> is the
  part that runs at once: the guard on the empty file list, the two state updates and
  the request, returned as the list of requests issued.
\<close>

definition fetchRecommendations_start ::
  "string option \<Rightarrow> 'q \<Rightarrow> 'f list \<Rightarrow> results_state \<Rightarrow> results_state \<times> ('q, 'f) request list" where
  "fetchRecommendations_start vite_api_url query files s =
     (if length files = 0 then (s, [])
      else (s\<lparr>loading := True, error := None\<rparr>,
            [\<lparr>url = endpoint vite_api_url, http_method = ''POST'',
              body = build_formData query files\<rparr>]))"

text \<open>
  A response, as far as the code reads it: \<open>res.ok\<close>, \<open>res.statusText\<close> and the promise
  \<open>res.json()\<close>, which rejects with an exception (\<open>Inl\<close>) when the body is not JSON. The
  promise of \<open>fetch\<close> itself rejects (\<open>Inl\<close>) when the network fails.
\<close>

record response =
  ok :: bool
  statusText :: string
  json :: "exn + js"

text \<open>
  The rest of the \<open>try\<close> block, after \<open>fetch\<close> has settled: \<open>Inl e\<close> when it throws \<open>e\<close>,
  \<open>Inr v\<close> when it reaches \<open>setRecommendations(v)\<close>.
\<close>

definition try_block :: "exn + response \<Rightarrow> exn + js" where
  "try_block fetched =
     (case fetched of
        Inl e \<Rightarrow> Inl e
      | Inr res \<Rightarrow>
          if \<not> ok res then
            (let err = (case json res of
                          Inl _ \<Rightarrow> JObj [(''detail'', JStr (statusText res))]
                        | Inr v \<Rightarrow> v)
             in case get_prop err ''detail'' of
                  Inl e \<Rightarrow> Inl e
                | Inr detail \<Rightarrow>
                    Inl (new_Error (if truthy detail then detail
                                    else JStr ''Failed to get recommendations'')))
          else
            (case json res of
               Inl e \<Rightarrow> Inl e
             | Inr data \<Rightarrow> get_prop data ''recommendations''))"

text \<open>\<open>e instanceof Error ? e.message : 'An error occurred'\<close>\<close>

definition catch_message :: "exn \<Rightarrow> string" where
  "catch_message e =
     (case e of ErrorObject message \<Rightarrow> message | OtherValue \<Rightarrow> ''An error occurred'')"

text \<open>
  \<open>fetchRecommendations_resume\<close> is the function from the settled \<open>fetch\<close> to its end,
  run on the state the component has at that moment. Its result is the promise of the
  async function: \<open>Inl e\<close> if an exception \<open>e\<close> leaves it, \<open>Inr\<close> the new state otherwise.
  The \<open>catch\<close> clause takes every exception of the \<open>try\<close> block and throws none, and
  \<open>finally\<close> sets \<open>loading\<close> on both paths.
\<close>

definition fetchRecommendations_resume ::
  "exn + response \<Rightarrow> results_state \<Rightarrow> exn + results_state" where
  "fetchRecommendations_resume fetched s =
     (case try_block fetched of
        Inr v \<Rightarrow> Inr (s\<lparr>recommendations := v, loading := False\<rparr>)
      | Inl e \<Rightarrow> Inr (s\<lparr>error := Some (catch_message e), loading := False\<rparr>))"

subsection \<open>The component over time\<close>

text \<open>
  The effect runs \<open>fetchRecommendations\<close> at the mount and whenever \<open>query\<close> or \<open>files\<close>
  change (\<open>Run\<close>); it has no cleanup, so every request stays in flight until its
  \<open>fetch\<close> settles (\<open>Settle i\<close>, for the \<open>i\<close>-th request in flight), in any order. All runs
  share the state of the component.
\<close>

datatype ('q, 'f) event =
    Run 'q "'f list"
  | Settle nat "exn + response"

record ('q, 'f) orchestrator =
  ui :: results_state
  in_flight :: "('q, 'f) request list"

definition orch_init :: "('q, 'f) orchestrator" where
  "orch_init = \<lparr>ui = initial_state, in_flight = []\<rparr>"

fun orch_step ::
  "string option \<Rightarrow> ('q, 'f) orchestrator \<Rightarrow> ('q, 'f) event \<Rightarrow> ('q, 'f) orchestrator" where
  "orch_step vite_api_url st (Run query files) =
     (case fetchRecommendations_start vite_api_url query files (ui st) of
        (s, requests) \<Rightarrow> st\<lparr>ui := s, in_flight := in_flight st @ requests\<rparr>)"
| "orch_step vite_api_url st (Settle i fetched) =
     (if i < length (in_flight st) then
        (case fetchRecommendations_resume fetched (ui st) of
           Inr s \<Rightarrow>
             st\<lparr>ui := s, in_flight := take i (in_flight st) @ drop (Suc i) (in_flight st)\<rparr>
         | Inl e \<Rightarrow>
             st\<lparr>in_flight := take i (in_flight st) @ drop (Suc i) (in_flight st)\<rparr>)
      else st)"

definition orch_run ::
  "string option \<Rightarrow> ('q, 'f) orchestrator \<Rightarrow> ('q, 'f) event list \<Rightarrow> ('q, 'f) orchestrator" where
  "orch_run vite_api_url st events = foldl (orch_step vite_api_url) st events"

section \<open>App.tsx\<close>

record 'f app_state =
  uploadedFiles :: "'f list"
  query :: utf16
  showResults :: bool
  isInteracting :: bool

definition app_init :: "'f app_state" where
  "app_init = \<lparr>uploadedFiles = [], query = [], showResults = False, isInteracting = False\<rparr>"

definition handleQuerySubmit :: "utf16 \<Rightarrow> 'f app_state \<Rightarrow> 'f app_state" where
  "handleQuerySubmit submittedQuery st =
     st\<lparr>query := submittedQuery, showResults := True, isInteracting := True\<rparr>"

text \<open>
  The form of \<open>RecommendationInput\<close> is wired to \<open>handleQuerySubmit\<close>
  (\<open>onSubmit={handleQuerySubmit}\<close>): pressing Generate with \<open>text\<close> in the textarea.
\<close>

definition press_generate :: "utf16 \<Rightarrow> 'f app_state \<Rightarrow> 'f app_state" where
  "press_generate text st =
     (case handleSubmit text of
        None \<Rightarrow> st
      | Some submittedQuery \<Rightarrow> handleQuerySubmit submittedQuery st)"

text \<open>
  The conditional parts of the page, in the order of the JSX: the hero, the glass card
  with the input (always there), the results inside the card, the prompt to upload
  documents, the results area above the fixed card, and the "Trusted by" line.
\<close>

datatype block = Hero | InputCard | InlineResults | UploadPrompt | ResultsArea | TrustedBy

definition App_render :: "'f app_state \<Rightarrow> block list" where
  "App_render st =
     (if \<not> isInteracting st then [Hero] else [])
     @ [InputCard]
     @ (if showResults st \<and> length (uploadedFiles st) > 0 \<and> \<not> isInteracting st
        then [InlineResults] else [])
     @ (if showResults st \<and> length (uploadedFiles st) = 0 \<and> \<not> isInteracting st
        then [UploadPrompt] else [])
     @ (if isInteracting st \<and> showResults st \<and> length (uploadedFiles st) > 0
        then [ResultsArea] else [])
     @ (if \<not> isInteracting st then [TrustedBy] else [])"

text \<open>
  The requests of a page: each \<open>RecommendationResults\<close> on it is mounted with
  \<open>query\<close> and \<open>uploadedFiles\<close> and runs its effect from its initial state.
\<close>

definition App_requests :: "string option \<Rightarrow> 'f app_state \<Rightarrow> (utf16, 'f) request list" where
  "App_requests vite_api_url st =
     concat (map (\<lambda>b. if b = InlineResults \<or> b = ResultsArea
                       then snd (fetchRecommendations_start vite_api_url (query st)
                                   (uploadedFiles st) initial_state)
                       else [])
                 (App_render st))"

text \<open>
  What the user does on the page: pressing Generate with a text in the textarea, and
  the actions on the File Collector, whose callback is \<open>setUploadedFiles\<close>.
\<close>

datatype 'f app_event = Generate utf16 | Collector "'f collector_event"

fun app_step :: "'f app_state \<Rightarrow> 'f app_event \<Rightarrow> 'f app_state" where
  "app_step st (Generate text) = press_generate text st"
| "app_step st (Collector ev) = st\<lparr>uploadedFiles := collector_step (uploadedFiles st) ev\<rparr>"

definition app_run :: "'f app_event list \<Rightarrow> 'f app_state" where
  "app_run events = foldl app_step app_init events"

section \<open>Properties of the File Collector\<close>

lemma filter_indexed_cong:
  "(\<And>x j. i \<le> j \<Longrightarrow> p x j = q x j) \<Longrightarrow> filter_indexed p i xs = filter_indexed q i xs"
  by (induction xs arbitrary: i) auto

lemma filter_indexed_True: "filter_indexed (\<lambda>_ _. True) i xs = xs"
  by (induction xs arbitrary: i) auto

lemma filter_indexed_skip:
  "filter_indexed (\<lambda>_ i. i \<noteq> n) k xs =
     (if k \<le> n \<and> n < k + length xs
      then take (n - k) xs @ drop (Suc (n - k)) xs
      else xs)"
proof (induction xs arbitrary: k)
  case Nil
  then show ?case by simp
next
  case (Cons x xs)
  show ?case
  proof (cases "k = n")
    case True
    then show ?thesis using Cons.IH [of "Suc k"] by simp
  next
    case False
    have "Suc k \<le> n \<Longrightarrow> Suc (n - Suc k) = n - k" by arith
    moreover have "Suc k \<le> n \<Longrightarrow> n - k \<noteq> 0" by arith
    ultimately show ?thesis using False Cons.IH [of "Suc k"]
      by (auto simp: take_Cons' drop_Cons')
  qed
qed

lemma handleRemoveFile_inside:
  assumes "0 \<le> index" "index < int (length xs)"
  shows "handleRemoveFile xs index = take (nat index) xs @ drop (Suc (nat index)) xs"
proof -
  have "filter_indexed (\<lambda>_ i. int i \<noteq> index) 0 xs = filter_indexed (\<lambda>_ i. i \<noteq> nat index) 0 xs"
    using assms by (intro filter_indexed_cong) auto
  then show ?thesis
    using assms by (simp add: handleRemoveFile_def filter_indexed_skip nat_less_iff)
qed

lemma handleRemoveFile_outside:
  assumes "index < 0 \<or> int (length xs) \<le> index"
  shows "handleRemoveFile xs index = xs"
proof (cases "index < 0")
  case True
  then have "filter_indexed (\<lambda>_ i. int i \<noteq> index) 0 xs = filter_indexed (\<lambda>_ _. True) 0 xs"
    by (intro filter_indexed_cong) auto
  then show ?thesis by (simp add: handleRemoveFile_def filter_indexed_True)
next
  case False
  then have "filter_indexed (\<lambda>_ i. int i \<noteq> index) 0 xs = filter_indexed (\<lambda>_ i. i \<noteq> nat index) 0 xs"
    by (intro filter_indexed_cong) auto
  then show ?thesis
    using assms False by (simp add: handleRemoveFile_def filter_indexed_skip nat_less_iff)
qed

lemma filter_indexed_map:
  "filter_indexed (\<lambda>_. q) i (map f xs) = map f (filter_indexed (\<lambda>_. q) i xs)"
  by (induction xs arbitrary: i) auto

lemma handleRemoveFile_map:
  "handleRemoveFile (map f xs) index = map f (handleRemoveFile xs index)"
  by (simp add: handleRemoveFile_def filter_indexed_map)

lemma nth_append_upt:
  "map (\<lambda>k. (xs @ ys) ! k) [length xs ..< length xs + length ys] = ys"
  by (rule nth_equalityI) (auto simp: nth_append)

lemma sorted_remove:
  assumes "sorted_wrt (<) (alive :: nat list)"
  shows "sorted_wrt (<) (take i alive @ drop (Suc i) alive)"
proof -
  have "sorted_wrt (<) (take i alive @ drop i alive)"
    using assms by simp
  then have cross: "\<forall>x\<in>set (take i alive). \<forall>y\<in>set (drop i alive). x < y"
    and l: "sorted_wrt (<) (take i alive)" and r: "sorted_wrt (<) (drop i alive)"
    unfolding sorted_wrt_append by blast+
  have sub: "set (drop (Suc i) alive) \<subseteq> set (drop i alive)"
    by (rule set_drop_subset_set_drop) simp
  have "sorted_wrt (<) (drop (Suc i) alive)"
    using assms by (rule sorted_wrt_drop)
  with l cross sub show ?thesis
    unfolding sorted_wrt_append by blast
qed

lemma insertion_order_snoc: "insertion_order (events @ [ev]) = insertion_order events @ added ev"
  by (simp add: insertion_order_def)

lemma collector_run_snoc: "collector_run (events @ [ev]) = collector_step (collector_run events) ev"
  by (simp add: collector_run_def)

lemma collector_step_added:
  "added ev \<noteq> [] \<or> (\<forall>i. ev \<noteq> RemoveClick i) \<Longrightarrow> collector_step xs ev = xs @ added ev"
  by (cases ev rule: added.cases) (auto simp: handleDrop_def handleFileSelect_def)

lemma collector_invariant:
  "fst (foldl spec_step (0, []) events) = length (insertion_order events)
   \<and> sorted_wrt (<) (survivors events)
   \<and> (\<forall>k\<in>set (survivors events). k < length (insertion_order events))
   \<and> collector_run events = expected events"
proof (induction events rule: rev_induct)
  case Nil
  then show ?case
    by (simp add: survivors_def insertion_order_def collector_run_def expected_def)
next
  case (snoc ev events)
  obtain n alive where st: "foldl spec_step (0, []) events = (n, alive)"
    by (cases "foldl spec_step (0, []) events")
  let ?log = "insertion_order events"
  from snoc st have n: "n = length ?log" and srt: "sorted_wrt (<) alive"
    and bnd: "\<forall>k\<in>set alive. k < length ?log"
    and run: "collector_run events = map (\<lambda>k. ?log ! k) alive"
    by (simp_all add: survivors_def expected_def)
  show ?case
  proof (cases "\<exists>i. ev = RemoveClick i")
    case True
    then obtain i where ev: "ev = RemoveClick i" by blast
    have log: "insertion_order (events @ [ev]) = ?log"
      by (simp add: insertion_order_snoc ev)
    show ?thesis
    proof (cases "0 \<le> i \<and> i < int (length alive)")
      case True
      then have "handleRemoveFile (map (\<lambda>k. ?log ! k) alive) i
          = map (\<lambda>k. ?log ! k) (take (nat i) alive @ drop (Suc (nat i)) alive)"
        by (simp add: handleRemoveFile_map handleRemoveFile_inside)
      with True st n srt bnd run ev log show ?thesis
        by (auto simp: survivors_def expected_def collector_run_snoc sorted_remove
              dest: in_set_takeD in_set_dropD)
    next
      case False
      then have "handleRemoveFile (map (\<lambda>k. ?log ! k) alive) i = map (\<lambda>k. ?log ! k) alive"
        by (intro handleRemoveFile_outside) auto
      with False st n srt bnd run ev log show ?thesis
        by (auto simp: survivors_def expected_def collector_run_snoc)
    qed
  next
    case False
    then have step: "collector_step (collector_run events) ev = collector_run events @ added ev"
      by (intro collector_step_added) simp
    from False have sp: "spec_step (n, alive) ev = (n + length (added ev), alive @ [n ..< n + length (added ev)])"
      by (cases ev) auto
    have old: "map (\<lambda>k. (?log @ added ev) ! k) alive = map (\<lambda>k. ?log ! k) alive"
      using bnd by (auto simp: nth_append)
    have new: "map (\<lambda>k. (?log @ added ev) ! k) [n ..< n + length (added ev)] = added ev"
      unfolding n by (rule nth_append_upt)
    have srt': "sorted_wrt (<) (alive @ [n ..< n + length (added ev)])"
      using srt bnd n by (auto simp: sorted_wrt_append)
    from st sp n bnd run step old new srt' show ?thesis
      by (auto simp: survivors_def expected_def collector_run_snoc insertion_order_snoc)
  qed
qed

text \<open>
  C9. \<open>handleRemoveFile\<close> is a total function with no failing branch (\<open>filter\<close> on an
  array does not throw). For an index inside the list it removes exactly the entry at
  that index: the result is the entries before it followed by the entries after it, one
  entry shorter. For an index outside the list (negative, or at least the length) the
  result is the list unchanged.
\<close>

theorem handleRemoveFile_total:
  "(0 \<le> index \<and> index < int (length current) \<longrightarrow>
      handleRemoveFile current index
        = take (nat index) current @ drop (Suc (nat index)) current
      \<and> Suc (length (handleRemoveFile current index)) = length current)
   \<and> (index < 0 \<or> int (length current) \<le> index \<longrightarrow>
      handleRemoveFile current index = current)"
proof (intro conjI impI)
  assume inside: "0 \<le> index \<and> index < int (length current)"
  then show eq: "handleRemoveFile current index
      = take (nat index) current @ drop (Suc (nat index)) current"
    by (simp add: handleRemoveFile_inside)
  from inside have "nat index < length current"
    by (simp add: nat_less_iff)
  then show "Suc (length (handleRemoveFile current index)) = length current"
    unfolding eq by simp
next
  assume "index < 0 \<or> int (length current) \<le> index"
  then show "handleRemoveFile current index = current"
    by (rule handleRemoveFile_outside)
qed

theorem handleRemoveFile_total_witness:
  "(0::int) \<le> 1 \<and> (1::int) < int (length [''a.pdf'', ''b.txt'', ''c.md''])
   \<and> handleRemoveFile [''a.pdf'', ''b.txt'', ''c.md''] 1 = [''a.pdf'', ''c.md'']
   \<and> ((-1::int) < 0 \<or> int (length [''a.pdf'', ''b.txt'', ''c.md'']) \<le> -1)
   \<and> handleRemoveFile [''a.pdf'', ''b.txt'', ''c.md''] (-1) = [''a.pdf'', ''b.txt'', ''c.md'']
   \<and> handleRemoveFile [''a.pdf'', ''b.txt'', ''c.md''] 3 = [''a.pdf'', ''b.txt'', ''c.md'']"
  using handleRemoveFile_total [of 1 "[''a.pdf'', ''b.txt'', ''c.md'']"]
    handleRemoveFile_total [of "-1" "[''a.pdf'', ''b.txt'', ''c.md'']"]
    handleRemoveFile_total [of 3 "[''a.pdf'', ''b.txt'', ''c.md'']"]
  by simp

text \<open>
  C6. Adding (by drop or by the file picker) appends the new files after the present
  ones, in their order and whether or not they are already there. Removing an index
  inside the list deletes that entry: the entries before it keep their index, the
  entries after it move down by one. After any sequence of additions and removals the
  list is the insertion order with the removed entries left out: it is \<open>expected\<close>,
  the files at the surviving positions of \<open>insertion_order\<close>, and these positions are
  strictly increasing.
\<close>

theorem collector_order_preserved:
  "handleDrop current files = current @ files
   \<and> handleFileSelect current (Some files) = Some (current @ files)
   \<and> (0 \<le> index \<and> index < int (length current) \<longrightarrow>
        handleRemoveFile current index
          = take (nat index) current @ drop (Suc (nat index)) current
        \<and> (\<forall>j. j < nat index \<longrightarrow>
              handleRemoveFile current index ! j = current ! j)
        \<and> (\<forall>j. nat index \<le> j \<and> Suc j < length current \<longrightarrow>
              handleRemoveFile current index ! j = current ! Suc j))
   \<and> collector_run events = expected events
   \<and> sorted_wrt (<) (survivors events)
   \<and> (\<forall>k\<in>set (survivors events). k < length (insertion_order events))"
proof -
  have add: "handleDrop current files = current @ files"
    "handleFileSelect current (Some files) = Some (current @ files)"
    by (simp_all add: handleDrop_def handleFileSelect_def)
  have rem: "handleRemoveFile current index
          = take (nat index) current @ drop (Suc (nat index)) current
        \<and> (\<forall>j. j < nat index \<longrightarrow>
              handleRemoveFile current index ! j = current ! j)
        \<and> (\<forall>j. nat index \<le> j \<and> Suc j < length current \<longrightarrow>
              handleRemoveFile current index ! j = current ! Suc j)"
    if inside: "0 \<le> index \<and> index < int (length current)"
  proof -
    have eq: "handleRemoveFile current index
          = take (nat index) current @ drop (Suc (nat index)) current"
      using inside by (simp add: handleRemoveFile_inside)
    have lt: "nat index < length current"
      using inside by (simp add: nat_less_iff)
    have before: "handleRemoveFile current index ! j = current ! j"
      if "j < nat index" for j
      using that lt unfolding eq by (simp add: nth_append)
    have after: "handleRemoveFile current index ! j = current ! Suc j"
      if "nat index \<le> j \<and> Suc j < length current" for j
    proof -
      have "Suc (nat index + (j - nat index)) = Suc j"
        using that by simp
      then show ?thesis
        using that lt unfolding eq by (simp add: nth_append min_def)
    qed
    from eq before after show ?thesis by blast
  qed
  from add rem collector_invariant [of events] show ?thesis
    by blast
qed

theorem collector_order_preserved_witness:
  "(0::int) \<le> 1 \<and> (1::int) < int (length [''a.pdf'', ''b.txt'', ''c.md''])
   \<and> handleDrop [''a.pdf'', ''b.txt'', ''c.md''] [''a.pdf''] = [''a.pdf'', ''b.txt'', ''c.md'', ''a.pdf'']
   \<and> handleRemoveFile [''a.pdf'', ''b.txt'', ''c.md''] 1 = [''a.pdf'', ''c.md'']
   \<and> collector_run [Drop [''a.pdf'', ''b.txt''], Select (Some [''a.pdf'']), RemoveClick 1,
          Select None, Drop [''c.md''], RemoveClick 7, Drop [''b.txt'']]
       = [''a.pdf'', ''a.pdf'', ''c.md'', ''b.txt'']
   \<and> survivors [Drop [''a.pdf'', ''b.txt''], Select (Some [''a.pdf'']), RemoveClick 1,
          Select None, Drop [''c.md''], RemoveClick 7, Drop [''b.txt'']]
       = [0, 2, 3, 4]"
  using collector_order_preserved [of "[''a.pdf'', ''b.txt'', ''c.md'']" "[''a.pdf'']" 1
      "[Drop [''a.pdf'', ''b.txt''], Select (Some [''a.pdf'']), RemoveClick 1,
        Select None, Drop [''c.md''], RemoveClick 7, Drop [''b.txt'']]"]
  by (simp add: expected_def survivors_def insertion_order_def)

section \<open>Properties of the Query Input\<close>

lemma trim_empty_iff: "trim s = [] \<longleftrightarrow> (\<forall>c\<in>set s. isWhiteSpace c)"
proof
  assume "trim s = []"
  then have d: "\<forall>c\<in>set (dropWhile isWhiteSpace s). isWhiteSpace c"
    by (simp add: trim_def dropWhile_eq_Nil_conv)
  have "set s = set (takeWhile isWhiteSpace s) \<union> set (dropWhile isWhiteSpace s)"
    by (metis set_append takeWhile_dropWhile_id)
  with d show "\<forall>c\<in>set s. isWhiteSpace c"
    by (auto dest: set_takeWhileD)
next
  assume "\<forall>c\<in>set s. isWhiteSpace c"
  then have "dropWhile isWhiteSpace s = []"
    by (simp add: dropWhile_eq_Nil_conv)
  then show "trim s = []"
    unfolding trim_def by (simp only: rev.simps dropWhile.simps)
qed

text \<open>
  C10. When every code unit of the query is white space (the empty query included),
  \<open>handleSubmit\<close> does not call \<open>onSubmit\<close>. When the query has a code unit that is not
  white space, \<open>onSubmit\<close> is called with the query as it was typed, untrimmed.
\<close>

theorem handleSubmit_nonblank_only:
  "((\<forall>c\<in>set text. isWhiteSpace c) \<longrightarrow> handleSubmit text = None)
   \<and> ((\<exists>c\<in>set text. \<not> isWhiteSpace c) \<longrightarrow> handleSubmit text = Some text)"
  by (auto simp: handleSubmit_def trim_empty_iff)

theorem handleSubmit_nonblank_only_witness:
  "handleSubmit [0x20, 0x09, 0xA0, 0x2003, 0x0A] = None
   \<and> handleSubmit [] = None
   \<and> handleSubmit (map of_char ''  What next? '') = Some (map of_char ''  What next? '')"
  using handleSubmit_nonblank_only [of "[0x20, 0x09, 0xA0, 0x2003, 0x0A]"]
    handleSubmit_nonblank_only [of "[]"]
    handleSubmit_nonblank_only [of "map of_char ''  What next? ''"]
  by (simp add: isWhiteSpace_def)

section \<open>Properties of the Recommendation Request Orchestrator\<close>

subsection \<open>The request\<close>

lemma foldl_formData_append:
  "foldl (\<lambda>formData file. formData_append name (g file) formData) acc files
     = acc @ map (\<lambda>file. (name, g file)) files"
  by (induction files arbitrary: acc) (simp_all add: formData_append_def)

lemma build_formData_entries:
  "build_formData q files = (''query'', Text q) # map (\<lambda>file. (''files'', FilePart file)) files"
  unfolding build_formData_def foldl_formData_append by (simp add: formData_append_def)

lemma getAll_files_map:
  "formData_getAll ''files'' (map (\<lambda>file. (''files'', FilePart file)) files) = map FilePart files"
  by (induction files) (simp_all add: formData_getAll_def)

lemma getAll_query_map:
  "formData_getAll ''query'' (map (\<lambda>file. (''files'', FilePart file)) files) = []"
  by (induction files) (simp_all add: formData_getAll_def)

lemma getAll_Cons:
  "formData_getAll name ((k, v) # fd) = (if k = name then v # formData_getAll name fd else formData_getAll name fd)"
  by (simp add: formData_getAll_def)

lemma endpoint_eq:
  "endpoint vite = (case vite of None \<Rightarrow> [] | Some u \<Rightarrow> u) @ ''/api/recommendations''"
  by (simp add: endpoint_def API_URL_def split: option.splits)

text \<open>
  C7. One run of \<open>fetchRecommendations\<close> is one submission. With at least one file it
  issues exactly one request: a POST to the API base followed by
  \<open>/api/recommendations\<close>, whose form data holds one \<open>query\<close> field, the submitted
  query, followed by one \<open>files\<close> part per file, in the order of the file list.
\<close>

theorem one_post_per_submission:
  assumes "files \<noteq> []"
  shows "\<exists>r. snd (fetchRecommendations_start vite q files s) = [r]
           \<and> in_flight (orch_step vite st (Run q files)) = in_flight st @ [r]
           \<and> url r = (case vite of None \<Rightarrow> [] | Some base \<Rightarrow> base) @ ''/api/recommendations''
           \<and> http_method r = ''POST''
           \<and> body r = (''query'', Text q) # map (\<lambda>file. (''files'', FilePart file)) files
           \<and> formData_getAll ''query'' (body r) = [Text q]
           \<and> formData_getAll ''files'' (body r) = map FilePart files"
  using assms
  by (simp add: fetchRecommendations_start_def build_formData_entries endpoint_eq
      getAll_Cons getAll_files_map getAll_query_map)

theorem one_post_per_submission_witness:
  "[''notes.txt''] \<noteq> []
   \<and> (\<exists>r. snd (fetchRecommendations_start (Some ''http://localhost:8000'') ''What should we build next?'' [''notes.txt''] initial_state) = [r]
        \<and> url r = ''http://localhost:8000/api/recommendations''
        \<and> body r = [(''query'', Text ''What should we build next?''), (''files'', FilePart ''notes.txt'')])"
  using one_post_per_submission [of "[''notes.txt'']" "Some ''http://localhost:8000''" "''What should we build next?''" initial_state orch_init]
  by auto

subsection \<open>Responses\<close>

lemma resume_error:
  "try_block fetched = Inl e \<Longrightarrow>
     fetchRecommendations_resume fetched s = Inr (s\<lparr>error := Some (catch_message e), loading := False\<rparr>)"
  by (simp add: fetchRecommendations_resume_def)

lemma resume_value:
  "try_block fetched = Inr v \<Longrightarrow>
     fetchRecommendations_resume fetched s = Inr (s\<lparr>recommendations := v, loading := False\<rparr>)"
  by (simp add: fetchRecommendations_resume_def)

lemma render_error:
  "message \<noteq> [] \<Longrightarrow> render (s\<lparr>error := Some message, loading := False\<rparr>) = ErrorView message"
  by (simp add: render_def)

lemma try_block_detail:
  assumes "\<not> ok res" "json res = Inr (JObj ps)" "map_of ps ''detail'' = Some (JStr d)"
  shows "try_block (Inr res)
           = Inl (ErrorObject (if d \<noteq> [] then d else ''Failed to get recommendations''))"
  using assms by (simp add: try_block_def get_prop_def new_Error_def)

lemma try_block_unparsable:
  assumes "\<not> ok res" "json res = Inl e"
  shows "try_block (Inr res)
           = Inl (ErrorObject (if statusText res \<noteq> [] then statusText res
                               else ''Failed to get recommendations''))"
  using assms by (simp add: try_block_def get_prop_def new_Error_def)

lemma start_nonempty:
  "files \<noteq> [] \<Longrightarrow>
     fst (fetchRecommendations_start vite q files s) = s\<lparr>loading := True, error := None\<rparr>"
  by (simp add: fetchRecommendations_start_def)

lemma try_block_ok_unparsable:
  "ok res \<Longrightarrow> json res = Inl e \<Longrightarrow> try_block (Inr res) = Inl e"
  by (simp add: try_block_def)

lemma try_block_ok_lacking:
  assumes "ok res" "json res = Inr data" "data \<noteq> JNull" "data \<noteq> JUndefined"
    "\<not> has_own data ''recommendations''"
  shows "try_block (Inr res) = Inr JUndefined"
  using assms by (cases data) (simp_all add: try_block_def get_prop_def has_own_def)

lemma try_block_ok_null:
  assumes "ok res" "json res = Inr JNull"
  shows "try_block (Inr res)
           = Inl (ErrorObject ''Cannot read properties of null (reading 'recommendations')'')"
  using assms by (simp add: try_block_def get_prop_def)

text \<open>
  C3, as the code has it. For a response that is not 2xx: when the body is a JSON object
  whose \<open>detail\<close> is a string, the component shows the error box with that string if it
  is not empty, and with "Failed to get recommendations" if it is empty
  (\<open>err.detail || 'Failed to get recommendations'\<close>); when the body cannot be parsed,
  it shows the error box with the status text of the response, or with "Failed to get
  recommendations" if the status text is empty. In both cases the function ends
  normally (\<open>Inr\<close>): no exception leaves it.
\<close>

theorem non_2xx_error_surfacing:
  assumes "\<not> ok res"
  shows "(json res = Inr (JObj ps) \<and> map_of ps ''detail'' = Some (JStr d) \<longrightarrow>
            (\<exists>s'. fetchRecommendations_resume (Inr res) s = Inr s'
               \<and> render s' = ErrorView (if d \<noteq> [] then d else ''Failed to get recommendations'')))
       \<and> (json res = Inl e \<longrightarrow>
            (\<exists>s'. fetchRecommendations_resume (Inr res) s = Inr s'
               \<and> render s' = ErrorView (if statusText res \<noteq> [] then statusText res
                                         else ''Failed to get recommendations'')))"
proof (intro conjI impI)
  assume "json res = Inr (JObj ps) \<and> map_of ps ''detail'' = Some (JStr d)"
  with assms have "try_block (Inr res)
      = Inl (ErrorObject (if d \<noteq> [] then d else ''Failed to get recommendations''))"
    by (simp add: try_block_detail)
  then have "fetchRecommendations_resume (Inr res) s
      = Inr (s\<lparr>error := Some (if d \<noteq> [] then d else ''Failed to get recommendations''),
              loading := False\<rparr>)"
    by (simp add: resume_error catch_message_def)
  moreover have "render (s\<lparr>error := Some (if d \<noteq> [] then d else ''Failed to get recommendations''),
                  loading := False\<rparr>)
      = ErrorView (if d \<noteq> [] then d else ''Failed to get recommendations'')"
    by (rule render_error) simp
  ultimately show "\<exists>s'. fetchRecommendations_resume (Inr res) s = Inr s'
      \<and> render s' = ErrorView (if d \<noteq> [] then d else ''Failed to get recommendations'')"
    by blast
next
  assume "json res = Inl e"
  with assms have "try_block (Inr res)
      = Inl (ErrorObject (if statusText res \<noteq> [] then statusText res
                          else ''Failed to get recommendations''))"
    by (simp add: try_block_unparsable)
  then have "fetchRecommendations_resume (Inr res) s
      = Inr (s\<lparr>error := Some (if statusText res \<noteq> [] then statusText res
                                else ''Failed to get recommendations''),
              loading := False\<rparr>)"
    by (simp add: resume_error catch_message_def)
  moreover have "render (s\<lparr>error := Some (if statusText res \<noteq> [] then statusText res
                                    else ''Failed to get recommendations''),
                  loading := False\<rparr>)
      = ErrorView (if statusText res \<noteq> [] then statusText res
                   else ''Failed to get recommendations'')"
    by (rule render_error) simp
  ultimately show "\<exists>s'. fetchRecommendations_resume (Inr res) s = Inr s'
      \<and> render s' = ErrorView (if statusText res \<noteq> [] then statusText res
                                else ''Failed to get recommendations'')"
    by blast
qed

theorem non_2xx_error_surfacing_witness:
  "\<not> ok \<lparr>ok = False, statusText = ''Too Many Requests'',
           json = Inr (JObj [(''detail'', JStr ''rate limited'')])\<rparr>
   \<and> (\<exists>s'. fetchRecommendations_resume
               (Inr \<lparr>ok = False, statusText = ''Too Many Requests'',
                     json = Inr (JObj [(''detail'', JStr ''rate limited'')])\<rparr>) initial_state = Inr s'
          \<and> render s' = ErrorView ''rate limited'')
   \<and> (\<exists>s'. fetchRecommendations_resume
               (Inr \<lparr>ok = False, statusText = ''Bad Gateway'',
                     json = Inl (ErrorObject ''Unexpected token < in JSON at position 0'')\<rparr>) initial_state = Inr s'
          \<and> render s' = ErrorView ''Bad Gateway'')"
  using non_2xx_error_surfacing [of "\<lparr>ok = False, statusText = ''Too Many Requests'',
           json = Inr (JObj [(''detail'', JStr ''rate limited'')])\<rparr>"
      "[(''detail'', JStr ''rate limited'')]" "''rate limited''" initial_state]
    non_2xx_error_surfacing [of "\<lparr>ok = False, statusText = ''Bad Gateway'',
           json = Inl (ErrorObject ''Unexpected token < in JSON at position 0'')\<rparr>"
      _ _ initial_state "ErrorObject ''Unexpected token < in JSON at position 0''"]
  by simp

text \<open>
  C3 as stated fails for an empty \<open>detail\<close>: the message shown is not that string but
  the fallback.
\<close>

theorem empty_detail_counterexample:
  "render (ui (orch_run None orch_init
      [Run ''What should we build next?'' [''notes.txt''],
       Settle 0 (Inr \<lparr>ok = False, statusText = ''Too Many Requests'',
                       json = Inr (JObj [(''detail'', JStr '''')])\<rparr>)]))
   = ErrorView ''Failed to get recommendations''
   \<and> ErrorView ''Failed to get recommendations'' \<noteq> ErrorView ''''"
  by (simp add: orch_run_def orch_init_def initial_state_def fetchRecommendations_start_def
      fetchRecommendations_resume_def try_block_def get_prop_def new_Error_def catch_message_def
      render_def)

text \<open>
  C4, as the code has it. For a 2xx response, after a submission with at least one
  file: when the body cannot be parsed, the error of the state becomes the message of
  the exception that \<open>res.json()\<close> raised, and the component shows the error box with
  it when it is not empty. When the body is valid JSON other than \<open>null\<close> and has no
  \<open>recommendations\<close> property (an object without it, an array, a number, a string, a
  boolean), no error is set, \<open>recommendations\<close> becomes \<open>undefined\<close> and the component
  renders nothing. When the body is \<open>null\<close>, reading \<open>recommendations\<close> throws, and the
  component shows the error box with the message of that TypeError.
\<close>

theorem malformed_2xx_response:
  assumes "ok res" and "files \<noteq> []"
  shows "(json res = Inl e \<longrightarrow>
            fetchRecommendations_resume (Inr res) (fst (fetchRecommendations_start vite q files s))
              = Inr (s\<lparr>loading := False, error := Some (catch_message e)\<rparr>)
            \<and> (catch_message e \<noteq> [] \<longrightarrow>
                 render (s\<lparr>loading := False, error := Some (catch_message e)\<rparr>)
                   = ErrorView (catch_message e)))
       \<and> (json res = Inr data \<and> data \<noteq> JNull \<and> data \<noteq> JUndefined
            \<and> \<not> has_own data ''recommendations'' \<longrightarrow>
            fetchRecommendations_resume (Inr res) (fst (fetchRecommendations_start vite q files s))
              = Inr (s\<lparr>recommendations := JUndefined, loading := False, error := None\<rparr>)
            \<and> render (s\<lparr>recommendations := JUndefined, loading := False, error := None\<rparr>)
              = Blank)
       \<and> (json res = Inr JNull \<longrightarrow>
            fetchRecommendations_resume (Inr res) (fst (fetchRecommendations_start vite q files s))
              = Inr (s\<lparr>loading := False,
                      error := Some ''Cannot read properties of null (reading 'recommendations')''\<rparr>)
            \<and> render (s\<lparr>loading := False,
                        error := Some ''Cannot read properties of null (reading 'recommendations')''\<rparr>)
              = ErrorView ''Cannot read properties of null (reading 'recommendations')'')"
proof (intro conjI impI)
  let ?s0 = "fst (fetchRecommendations_start vite q files s)"
  have s0: "?s0 = s\<lparr>loading := True, error := None\<rparr>"
    using assms(2) by (rule start_nonempty)
  {
    assume "json res = Inl e"
    with assms have "try_block (Inr res) = Inl e"
      by (simp add: try_block_ok_unparsable)
    then show "fetchRecommendations_resume (Inr res) ?s0
        = Inr (s\<lparr>loading := False, error := Some (catch_message e)\<rparr>)"
      unfolding s0 by (simp add: resume_error)
  }
  {
    assume "catch_message e \<noteq> []"
    then show "render (s\<lparr>loading := False, error := Some (catch_message e)\<rparr>)
        = ErrorView (catch_message e)"
      by (simp add: render_def)
  }
  {
    assume "json res = Inr data \<and> data \<noteq> JNull \<and> data \<noteq> JUndefined
        \<and> \<not> has_own data ''recommendations''"
    with assms have "try_block (Inr res) = Inr JUndefined"
      by (simp add: try_block_ok_lacking)
    then show "fetchRecommendations_resume (Inr res) ?s0
        = Inr (s\<lparr>recommendations := JUndefined, loading := False, error := None\<rparr>)"
      unfolding s0 by (simp add: resume_value)
  }
  show "render (s\<lparr>recommendations := JUndefined, loading := False, error := None\<rparr>) = Blank"
    by (simp add: render_def render_recommendations_def)
  {
    assume "json res = Inr JNull"
    with assms have "try_block (Inr res)
        = Inl (ErrorObject ''Cannot read properties of null (reading 'recommendations')'')"
      by (simp add: try_block_ok_null)
    then show "fetchRecommendations_resume (Inr res) ?s0
        = Inr (s\<lparr>loading := False,
                error := Some ''Cannot read properties of null (reading 'recommendations')''\<rparr>)"
      unfolding s0 by (simp add: resume_error catch_message_def)
  }
  show "render (s\<lparr>loading := False,
                  error := Some ''Cannot read properties of null (reading 'recommendations')''\<rparr>)
      = ErrorView ''Cannot read properties of null (reading 'recommendations')''"
    by (simp add: render_def)
qed

theorem malformed_2xx_response_witness:
  "ok \<lparr>ok = True, statusText = ''OK'', json = Inl (ErrorObject ''Unexpected end of JSON input'')\<rparr>
   \<and> [''notes.txt''] \<noteq> []
   \<and> fetchRecommendations_resume
        (Inr \<lparr>ok = True, statusText = ''OK'',
              json = Inl (ErrorObject ''Unexpected end of JSON input'')\<rparr>)
        (fst (fetchRecommendations_start None ''q'' [''notes.txt''] initial_state))
      = Inr \<lparr>recommendations = JNull, loading = False,
              error = Some ''Unexpected end of JSON input''\<rparr>
   \<and> render \<lparr>recommendations = JNull, loading = False,
               error = Some ''Unexpected end of JSON input''\<rparr>
      = ErrorView ''Unexpected end of JSON input''
   \<and> fetchRecommendations_resume
        (Inr \<lparr>ok = True, statusText = ''OK'', json = Inr (JObj [(''result'', JStr ''x'')])\<rparr>)
        (fst (fetchRecommendations_start None ''q'' [''notes.txt'']
                \<lparr>recommendations = JStr ''old answer'', loading = False, error = Some ''old error''\<rparr>))
      = Inr \<lparr>recommendations = JUndefined, loading = False, error = None\<rparr>
   \<and> fetchRecommendations_resume
        (Inr \<lparr>ok = True, statusText = ''OK'', json = Inr (JArr [])\<rparr>)
        (fst (fetchRecommendations_start None ''q'' [''notes.txt''] initial_state))
      = Inr \<lparr>recommendations = JUndefined, loading = False, error = None\<rparr>
   \<and> fetchRecommendations_resume
        (Inr \<lparr>ok = True, statusText = ''OK'', json = Inr (JNum True ''7'')\<rparr>)
        (fst (fetchRecommendations_start None ''q'' [''notes.txt''] initial_state))
      = Inr \<lparr>recommendations = JUndefined, loading = False, error = None\<rparr>
   \<and> render \<lparr>recommendations = JUndefined, loading = False, error = None\<rparr> = Blank
   \<and> fetchRecommendations_resume
        (Inr \<lparr>ok = True, statusText = ''OK'', json = Inr JNull\<rparr>)
        (fst (fetchRecommendations_start None ''q'' [''notes.txt''] initial_state))
      = Inr \<lparr>recommendations = JNull, loading = False,
              error = Some ''Cannot read properties of null (reading 'recommendations')''\<rparr>"
  using malformed_2xx_response [where
      res = "\<lparr>ok = True, statusText = ''OK'',
              json = Inl (ErrorObject ''Unexpected end of JSON input'')\<rparr>"
      and files = "[''notes.txt'']" and e = "ErrorObject ''Unexpected end of JSON input''"
      and vite = None and q = "''q''" and s = initial_state]
    malformed_2xx_response [where
      res = "\<lparr>ok = True, statusText = ''OK'', json = Inr (JObj [(''result'', JStr ''x'')])\<rparr>"
      and files = "[''notes.txt'']" and data = "JObj [(''result'', JStr ''x'')]"
      and vite = None and q = "''q''"
      and s = "\<lparr>recommendations = JStr ''old answer'', loading = False, error = Some ''old error''\<rparr>"]
    malformed_2xx_response [where
      res = "\<lparr>ok = True, statusText = ''OK'', json = Inr (JArr [])\<rparr>"
      and files = "[''notes.txt'']" and data = "JArr []"
      and vite = None and q = "''q''" and s = initial_state]
    malformed_2xx_response [where
      res = "\<lparr>ok = True, statusText = ''OK'', json = Inr (JNum True ''7'')\<rparr>"
      and files = "[''notes.txt'']" and data = "JNum True ''7''"
      and vite = None and q = "''q''" and s = initial_state]
    malformed_2xx_response [where
      res = "\<lparr>ok = True, statusText = ''OK'', json = Inr JNull\<rparr>"
      and files = "[''notes.txt'']" and vite = None and q = "''q''" and s = initial_state]
  by (simp add: initial_state_def catch_message_def has_own_def)

text \<open>
  C4 as stated fails for the body \<open>{}\<close>: the component renders nothing, not the error
  box.
\<close>

theorem missing_field_counterexample:
  "render (ui (orch_run None orch_init
      [Run ''What should we build next?'' [''notes.txt''],
       Settle 0 (Inr \<lparr>ok = True, statusText = ''OK'', json = Inr (JObj [])\<rparr>)]))
   = Blank"
  by (simp add: orch_run_def orch_init_def initial_state_def fetchRecommendations_start_def
      fetchRecommendations_resume_def try_block_def get_prop_def
      render_def render_recommendations_def)

subsection \<open>What is displayed\<close>

lemma render_cases:
  "(loading s \<and> render s = LoadingView)
   \<or> (\<not> loading s \<and> (\<exists>message. message \<noteq> [] \<and> error s = Some message
                                 \<and> render s = ErrorView message))
   \<or> (\<not> loading s \<and> (error s = None \<or> error s = Some [])
        \<and> truthy (recommendations s) \<and> render s = SuccessView (recommendations s))
   \<or> (\<not> loading s \<and> (error s = None \<or> error s = Some [])
        \<and> \<not> truthy (recommendations s) \<and> render s = Blank)"
  by (cases "error s") (auto simp: render_def render_recommendations_def)

lemma orch_step_Run_ui:
  "files \<noteq> [] \<Longrightarrow> ui (orch_step vite st (Run q files)) = (ui st)\<lparr>loading := True, error := None\<rparr>"
  by (simp add: fetchRecommendations_start_def)

text \<open>
  C5, as the code has it. After any sequence of runs and responses the component shows
  exactly one of four things: the spinner (while \<open>loading\<close>), the error box with a
  message that is not empty, the recommendations (a truthy value), or nothing at all,
  when neither an error message nor recommendations are there to show. Every new
  submission with at least one file shows the spinner and clears the error, whatever
  was shown before.
\<close>

theorem one_of_four_views:
  "((loading (ui (orch_run vite orch_init events))
      \<and> render (ui (orch_run vite orch_init events)) = LoadingView)
    \<or> (\<not> loading (ui (orch_run vite orch_init events))
        \<and> (\<exists>message. message \<noteq> []
              \<and> error (ui (orch_run vite orch_init events)) = Some message
              \<and> render (ui (orch_run vite orch_init events)) = ErrorView message))
    \<or> (\<not> loading (ui (orch_run vite orch_init events))
        \<and> (error (ui (orch_run vite orch_init events)) = None
             \<or> error (ui (orch_run vite orch_init events)) = Some [])
        \<and> truthy (recommendations (ui (orch_run vite orch_init events)))
        \<and> render (ui (orch_run vite orch_init events))
            = SuccessView (recommendations (ui (orch_run vite orch_init events))))
    \<or> (\<not> loading (ui (orch_run vite orch_init events))
        \<and> (error (ui (orch_run vite orch_init events)) = None
             \<or> error (ui (orch_run vite orch_init events)) = Some [])
        \<and> \<not> truthy (recommendations (ui (orch_run vite orch_init events)))
        \<and> render (ui (orch_run vite orch_init events)) = Blank))
   \<and> (files \<noteq> [] \<longrightarrow>
        render (ui (orch_step vite (orch_run vite orch_init events) (Run q files))) = LoadingView
        \<and> error (ui (orch_step vite (orch_run vite orch_init events) (Run q files))) = None)"
proof (intro conjI impI)
  show "(loading (ui (orch_run vite orch_init events))
      \<and> render (ui (orch_run vite orch_init events)) = LoadingView)
    \<or> (\<not> loading (ui (orch_run vite orch_init events))
        \<and> (\<exists>message. message \<noteq> []
              \<and> error (ui (orch_run vite orch_init events)) = Some message
              \<and> render (ui (orch_run vite orch_init events)) = ErrorView message))
    \<or> (\<not> loading (ui (orch_run vite orch_init events))
        \<and> (error (ui (orch_run vite orch_init events)) = None
             \<or> error (ui (orch_run vite orch_init events)) = Some [])
        \<and> truthy (recommendations (ui (orch_run vite orch_init events)))
        \<and> render (ui (orch_run vite orch_init events))
            = SuccessView (recommendations (ui (orch_run vite orch_init events))))
    \<or> (\<not> loading (ui (orch_run vite orch_init events))
        \<and> (error (ui (orch_run vite orch_init events)) = None
             \<or> error (ui (orch_run vite orch_init events)) = Some [])
        \<and> \<not> truthy (recommendations (ui (orch_run vite orch_init events)))
        \<and> render (ui (orch_run vite orch_init events)) = Blank)"
    by (rule render_cases)
next
  assume "files \<noteq> []"
  then show "render (ui (orch_step vite (orch_run vite orch_init events) (Run q files))) = LoadingView"
    by (simp add: orch_step_Run_ui render_def del: orch_step.simps)
next
  assume "files \<noteq> []"
  then show "error (ui (orch_step vite (orch_run vite orch_init events) (Run q files))) = None"
    by (simp add: orch_step_Run_ui del: orch_step.simps)
qed

theorem one_of_four_views_witness:
  "[''notes.txt''] \<noteq> []
   \<and> render (ui (orch_run None orch_init
        [Run ''first'' [''notes.txt''],
         Settle 0 (Inr \<lparr>ok = True, statusText = ''OK'',
                         json = Inr (JObj [(''recommendations'', JStr ''**Build X**'')])\<rparr>)]))
       = SuccessView (JStr ''**Build X**'')
   \<and> render (ui (orch_step None (orch_run None orch_init
        [Run ''first'' [''notes.txt''],
         Settle 0 (Inr \<lparr>ok = True, statusText = ''OK'',
                         json = Inr (JObj [(''recommendations'', JStr ''**Build X**'')])\<rparr>)])
        (Run ''second'' [''notes.txt''])))
       = LoadingView"
  using one_of_four_views [of None
        "[Run ''first'' [''notes.txt''],
         Settle 0 (Inr \<lparr>ok = True, statusText = ''OK'',
                         json = Inr (JObj [(''recommendations'', JStr ''**Build X**'')])\<rparr>)]"
        "[''notes.txt'']" "''second''"]
  by (simp add: orch_run_def orch_init_def initial_state_def fetchRecommendations_start_def
      fetchRecommendations_resume_def try_block_def get_prop_def
      render_def render_recommendations_def)

text \<open>
  C5 as stated fails: after a 2xx response whose \<open>recommendations\<close> is the empty
  string, none of Loading, Error and Success is shown.
\<close>

theorem blank_view_counterexample:
  "render (ui (orch_run None orch_init
      [Run ''What should we build next?'' [''notes.txt''],
       Settle 0 (Inr \<lparr>ok = True, statusText = ''OK'',
                       json = Inr (JObj [(''recommendations'', JStr [])])\<rparr>)]))
   = Blank"
  by (simp add: orch_run_def orch_init_def initial_state_def fetchRecommendations_start_def
      fetchRecommendations_resume_def try_block_def get_prop_def
      render_def render_recommendations_def)

subsection \<open>Two submissions in flight\<close>







section \<open>Properties of the page\<close>

lemma app_run_interacting:
  "showResults (app_run events) = isInteracting (app_run events)"
proof (induction events rule: rev_induct)
  case Nil
  then show ?case by (simp add: app_run_def app_init_def)
next
  case (snoc ev events)
  then show ?case
    by (cases ev)
      (auto simp: app_run_def press_generate_def handleQuerySubmit_def split: option.splits)
qed

lemma App_render_no_prompt:
  "showResults st = isInteracting st \<Longrightarrow> UploadPrompt \<notin> set (App_render st)"
  by (simp add: App_render_def)

text \<open>
  C1, on the code. The first half holds: with an empty file list
  \<open>fetchRecommendations\<close> returns at its guard and issues no request, and the page
  mounts no \<open>RecommendationResults\<close>, so a submission without files makes no network
  call. The second half does not: \<open>handleQuerySubmit\<close> sets \<open>showResults\<close> and
  \<open>isInteracting\<close> together, and the prompt to upload documents is rendered only when
  \<open>showResults\<close> holds and \<open>isInteracting\<close> does not. After a submission without
  files the page shows the input card alone, and no sequence of user actions ever
  shows the prompt.
\<close>

theorem upload_prompt_never_shown:
  "fetchRecommendations_start vite q [] s = (s, [])
   \<and> App_requests vite (handleQuerySubmit submitted (st\<lparr>uploadedFiles := []\<rparr>)) = []
   \<and> App_render (handleQuerySubmit submitted (st\<lparr>uploadedFiles := []\<rparr>)) = [InputCard]
   \<and> App_render (app_run [Generate (map of_char ''What should we build next?'')]) = [InputCard]
   \<and> UploadPrompt \<notin> set (App_render (app_run events))"
proof (intro conjI)
  show "fetchRecommendations_start vite q [] s = (s, [])"
    by (simp add: fetchRecommendations_start_def)
  show "App_render (handleQuerySubmit submitted (st\<lparr>uploadedFiles := []\<rparr>)) = [InputCard]"
    by (simp add: App_render_def handleQuerySubmit_def)
  then show "App_requests vite (handleQuerySubmit submitted (st\<lparr>uploadedFiles := []\<rparr>)) = []"
    by (simp add: App_requests_def)
  show "App_render (app_run [Generate (map of_char ''What should we build next?'')]) = [InputCard]"
    by (simp add: app_run_def app_init_def press_generate_def handleSubmit_def trim_def
        isWhiteSpace_def handleQuerySubmit_def App_render_def)
  show "UploadPrompt \<notin> set (App_render (app_run events))"
    by (rule App_render_no_prompt) (rule app_run_interacting)
qed

end
